theory Spec2Isabelle
  imports Main "HOL-Library.Sublist"
begin

section \<open>JavaScript preliminaries\<close>

text \<open>
  A value of TypeScript type \<open>T | undefined\<close> (an optional field, an omitted argument, the
  result of an optional chain \<open>a?.b\<close>) is a \<open>T option\<close>, with \<open>None\<close> for \<open>undefined\<close>.
  Arrays are lists.
\<close>

text \<open>\<open>Array.prototype.find\<close>: the first element the callback accepts, else \<open>undefined\<close>.\<close>

fun array_find :: "('a \<Rightarrow> bool) \<Rightarrow> 'a list \<Rightarrow> 'a option" where
  "array_find p [] = None"
| "array_find p (x # xs) = (if p x then Some x else array_find p xs)"

text \<open>\<open>Array.prototype.filter\<close>: the accepted elements, in the order of the array.\<close>

fun array_filter :: "('a \<Rightarrow> bool) \<Rightarrow> 'a list \<Rightarrow> 'a list" where
  "array_filter p [] = []"
| "array_filter p (x # xs) = (if p x then x # array_filter p xs else array_filter p xs)"

text \<open>
  An \<open>Error\<close> object, such as the \<open>YAMLException\<close> of js-yaml or the error \<open>useAlerts\<close>
  constructs, with its \<open>message\<close>.
\<close>

record js_error =
  message :: string

text \<open>
  What a \<open>catch (e)\<close> receives is untyped: a thrown value or a rejection reason can be any
  JavaScript value. The handler of \<open>BMCForm\<close> reads \<open>e.message\<close> and nothing else. On
  \<open>undefined\<close> and \<open>null\<close> (\<open>Nullish\<close>) that read throws a \<open>TypeError\<close>; on every other
  value (\<open>Object m\<close>) it gives the \<open>message\<close> property, \<open>m = Some t\<close>, or \<open>undefined\<close> when
  the value has none, \<open>m = None\<close>. An \<open>Error\<close> object is of the second kind.
\<close>

datatype thrown = Nullish | Object "string option"

datatype uncaught = TypeError

fun read_message :: "thrown \<Rightarrow> uncaught + string option" where
  "read_message Nullish = Inl TypeError"
| "read_message (Object m) = Inr m"

definition error_object :: "js_error \<Rightarrow> thrown" where
  "error_object e = Object (Some (message e))"

text \<open>What awaiting the promise of an external call yields; \<open>Pending\<close> never settles.\<close>

datatype 'e promise_outcome = Resolved | Rejected 'e | Pending

text \<open>What a synchronous callback does.\<close>

datatype 'e call_outcome = Returns | Throws 'e

text \<open>A template literal \<open>`${v}`\<close> renders \<open>undefined\<close> as the text \<open>undefined\<close>.\<close>

definition template_string :: "string option \<Rightarrow> string" where
  "template_string v = (case v of None \<Rightarrow> ''undefined'' | Some s \<Rightarrow> s)"


section \<open>Kubernetes resource shapes\<close>

record ObjectMeta =
  name :: "string option"
  namespace :: "string option"

text \<open>\<open>K8sResourceCommon & { spec?: ...; status?: ... }\<close>\<close>

record ('spec, 'status) K8sResourceCommon =
  metadata :: "ObjectMeta option"
  spec :: "'spec option"
  status :: "'status option"

record StatusCondition =
  type :: string
  conditionStatus :: string
  conditionMessage :: string

record ConditionsStatus =
  conditions :: "StatusCondition list option"

type_synonym 'spec AgentClusterInstallK8sResource = "('spec, ConditionsStatus) K8sResourceCommon"
type_synonym 'spec AgentK8sResource = "('spec, ConditionsStatus) K8sResourceCommon"
type_synonym ('spec, 'status) InfraEnvK8sResource = "('spec, 'status) K8sResourceCommon"


section \<open>Condition lookup: helpers/conditions.ts\<close>

definition getClusterValidatedCondition ::
  "'spec AgentClusterInstallK8sResource \<Rightarrow> StatusCondition option" where
  "getClusterValidatedCondition resource =
     (case status resource of
        None \<Rightarrow> None
      | Some st \<Rightarrow>
          (case conditions st of
             None \<Rightarrow> None
           | Some cs \<Rightarrow> array_find (\<lambda>c. type c = ''Validated'') cs))"

definition getAgentValidatedCondition ::
  "'spec AgentK8sResource \<Rightarrow> StatusCondition option" where
  "getAgentValidatedCondition agentClusterInstall =
     (case status agentClusterInstall of
        None \<Rightarrow> None
      | Some st \<Rightarrow>
          (case conditions st of
             None \<Rightarrow> None
           | Some cs \<Rightarrow> array_find (\<lambda>c. type c = ''Validated'') cs))"


section \<open>Label selector extraction: agent location match expressions\<close>

record MatchExpression =
  key :: string
  operator :: string
  values' :: "string list option"

text \<open>
  The constant \<open>AGENT_LOCATION_LABEL_KEY\<close> is imported from another module; both functions
  take it as their first parameter. An omitted \<open>expressions\<close> argument is \<open>None\<close> and gets
  the default \<open>[]\<close>; \<open>x || []\<close> keeps every array \<open>x\<close>, the empty one too.
\<close>

definition getLocationsFromMatchExpressions ::
  "string \<Rightarrow> MatchExpression list option \<Rightarrow> string list" where
  "getLocationsFromMatchExpressions AGENT_LOCATION_LABEL_KEY expressions_arg =
     (let expressions = (case expressions_arg of None \<Rightarrow> [] | Some es \<Rightarrow> es) in
      case array_find (\<lambda>expr. key expr = AGENT_LOCATION_LABEL_KEY) expressions of
        None \<Rightarrow> []
      | Some expr \<Rightarrow> (case values' expr of None \<Rightarrow> [] | Some vs \<Rightarrow> vs))"

definition getAgentLocationMatchExpression ::
  "string \<Rightarrow> string list option \<Rightarrow> MatchExpression list option" where
  "getAgentLocationMatchExpression AGENT_LOCATION_LABEL_KEY locations =
     (case locations of
        None \<Rightarrow> None
      | Some ls \<Rightarrow>
          if length ls \<noteq> 0
          then Some [\<lparr>key = AGENT_LOCATION_LABEL_KEY, operator = ''In'', values' = Some ls\<rparr>]
          else None)"


section \<open>The Add-BMC form: Agent/BMCForm.tsx\<close>

record MacMappingEntry =
  macAddress :: string
  name' :: string

record AddBmcValues =
  hostname :: string
  bmcAddress :: string
  username :: string
  password :: string
  bootMACAddress :: string
  disableCertificateVerification :: bool
  online :: bool
  nmState :: string
  macMapping :: "MacMappingEntry list"

definition emptyValues :: AddBmcValues where
  "emptyValues =
     \<lparr>hostname = [], bmcAddress = [], username = [], password = [],
      bootMACAddress = [], disableCertificateVerification = True, online = False,
      nmState = [], macMapping = [\<lparr>macAddress = [], name' = []\<rparr>]\<rparr>"

text \<open>The object literal that \<open>getNMState\<close> builds, field by field.\<close>

record NMStateLabels =
  infraEnv :: "string option"
  bmcMAC :: string

record NMStateMetadata =
  generateName :: string
  namespace' :: "string option"
  labels :: NMStateLabels

record 'cfg NMStateSpec =
  config :: 'cfg
  interfaces :: "MacMappingEntry list"

record 'cfg NMStateConfig =
  apiVersion :: string
  kind :: string
  metadata' :: NMStateMetadata
  spec' :: "'cfg NMStateSpec"

text \<open>
  \<open>yaml.load\<close> belongs to the js-yaml library: it is the parameter \<open>yaml_load\<close>, which
  returns the parsed document or throws. \<open>getNMState\<close> has no handler of its own, so what
  \<open>yaml.load\<close> throws leaves \<open>getNMState\<close> too. The filter callback
  \<open>m.macAddress.length && m.name.length\<close> is truthy when both lengths are non-zero.
\<close>

definition getNMState ::
  "(string \<Rightarrow> js_error + 'cfg) \<Rightarrow> AddBmcValues \<Rightarrow> ('spec, 'status) InfraEnvK8sResource
     \<Rightarrow> js_error + 'cfg NMStateConfig" where
  "getNMState yaml_load vals infraEnvRes =
     (case yaml_load (nmState vals) of
        Inl e \<Rightarrow> Inl e
      | Inr parsed \<Rightarrow>
          Inr \<lparr>apiVersion = ''agent-install.openshift.io/v1beta1'',
               kind = ''NMStateConfig'',
               metadata' =
                 \<lparr>generateName =
                    template_string
                      (case metadata infraEnvRes of None \<Rightarrow> None | Some m \<Rightarrow> name m) @ ''-'',
                  namespace' =
                    (case metadata infraEnvRes of None \<Rightarrow> None | Some m \<Rightarrow> namespace m),
                  labels =
                    \<lparr>infraEnv =
                       (case metadata infraEnvRes of None \<Rightarrow> None | Some m \<Rightarrow> name m),
                     bmcMAC = bmcAddress vals\<rparr>\<rparr>,
               spec' =
                 \<lparr>config = parsed,
                  interfaces =
                    array_filter
                      (\<lambda>m. length (macAddress m) \<noteq> 0 \<and> length (name' m) \<noteq> 0)
                      (macMapping vals)\<rparr>\<rparr>)"

text \<open>
  The component's view state (\<open>React.useState\<close>: \<open>error\<close>) and the calls it has made to
  its callback props, oldest first.
\<close>

datatype 'cfg bmc_call = OnCreate AddBmcValues "'cfg NMStateConfig option" | OnClose

record 'cfg BMCFormState =
  error :: "string option"
  calls :: "'cfg bmc_call list"

definition setError :: "string option \<Rightarrow> 'cfg BMCFormState \<Rightarrow> 'cfg BMCFormState" where
  "setError v s = s\<lparr>error := v\<rparr>"

definition invoke :: "'cfg bmc_call \<Rightarrow> 'cfg BMCFormState \<Rightarrow> 'cfg BMCFormState" where
  "invoke c s = s\<lparr>calls := calls s @ [c]\<rparr>"

text \<open>Line 151: \<open>hasDHCP ? undefined : getNMState(values, infraEnv)\<close>, which may throw.\<close>

definition nmState_argument ::
  "(string \<Rightarrow> js_error + 'cfg) \<Rightarrow> bool \<Rightarrow> ('spec, 'status) InfraEnvK8sResource
     \<Rightarrow> AddBmcValues \<Rightarrow> js_error + 'cfg NMStateConfig option" where
  "nmState_argument yaml_load hasDHCP infraEnvRes vals =
     (if hasDHCP then Inr None
      else (case getNMState yaml_load vals infraEnvRes of
              Inl e \<Rightarrow> Inl e
            | Inr nm \<Rightarrow> Inr (Some nm)))"

text \<open>
  The handler \<open>catch (e) { setError(e.message) }\<close>. When reading \<open>e.message\<close> throws,
  \<open>setError\<close> is not reached, and the \<open>TypeError\<close> leaves the handler: the promise of the
  async function rejects. Otherwise the function completes after \<open>setError\<close>.
\<close>

definition catch_handler ::
  "thrown \<Rightarrow> 'cfg BMCFormState \<Rightarrow> uncaught promise_outcome \<times> 'cfg BMCFormState" where
  "catch_handler e s =
     (case read_message e of
        Inl err \<Rightarrow> (Rejected err, s)
      | Inr m \<Rightarrow> (Resolved, setError m s))"

text \<open>
  \<open>handleSubmit\<close> of \<open>BMCForm\<close>. The whole body stands in one \<open>try\<close> with the handler
  above. \<open>onCreate\<close> gives what awaiting the external call yields, and \<open>onClose\<close> what
  calling the close callback does. The result is how the promise of \<open>handleSubmit\<close>
  settles, and the state the component is left in.
\<close>

definition BMCForm_handleSubmit_run ::
  "(string \<Rightarrow> js_error + 'cfg)
     \<Rightarrow> (AddBmcValues \<Rightarrow> 'cfg NMStateConfig option \<Rightarrow> thrown promise_outcome)
     \<Rightarrow> thrown call_outcome \<Rightarrow> bool \<Rightarrow> ('spec, 'status) InfraEnvK8sResource
     \<Rightarrow> AddBmcValues \<Rightarrow> 'cfg BMCFormState
     \<Rightarrow> uncaught promise_outcome \<times> 'cfg BMCFormState" where
  "BMCForm_handleSubmit_run yaml_load onCreate onClose hasDHCP infraEnvRes vals s0 =
     (let s1 = setError None s0 in
      case nmState_argument yaml_load hasDHCP infraEnvRes vals of
        Inl e \<Rightarrow> catch_handler (error_object e) s1
      | Inr nm \<Rightarrow>
          (let s2 = invoke (OnCreate vals nm) s1 in
           case onCreate vals nm of
             Pending \<Rightarrow> (Pending, s2)
           | Rejected e \<Rightarrow> catch_handler e s2
           | Resolved \<Rightarrow>
               (let s3 = invoke OnClose s2 in
                case onClose of
                  Returns \<Rightarrow> (Resolved, s3)
                | Throws e \<Rightarrow> catch_handler e s3)))"

text \<open>The state \<open>handleSubmit\<close> leaves, and how its promise settles.\<close>

definition BMCForm_handleSubmit ::
  "(string \<Rightarrow> js_error + 'cfg)
     \<Rightarrow> (AddBmcValues \<Rightarrow> 'cfg NMStateConfig option \<Rightarrow> thrown promise_outcome)
     \<Rightarrow> thrown call_outcome \<Rightarrow> bool \<Rightarrow> ('spec, 'status) InfraEnvK8sResource
     \<Rightarrow> AddBmcValues \<Rightarrow> 'cfg BMCFormState \<Rightarrow> 'cfg BMCFormState" where
  "BMCForm_handleSubmit yaml_load onCreate onClose hasDHCP infraEnvRes vals s0 =
     snd (BMCForm_handleSubmit_run yaml_load onCreate onClose hasDHCP infraEnvRes vals s0)"


text \<open>
  Lines 215 to 224 of the render: \<open>{error && <Alert ...>{error}</Alert>}\<close>. Neither
  \<open>undefined\<close> nor the empty string is truthy.
\<close>

datatype AlertVariant = Success | Danger | Warning | Info | Default



text \<open>How many times \<open>onCreate\<close> and \<open>onClose\<close> were called.\<close>

fun is_OnCreate :: "'cfg bmc_call \<Rightarrow> bool" where
  "is_OnCreate (OnCreate _ _) = True"
| "is_OnCreate OnClose = False"


definition onCreate_count :: "'cfg BMCFormState \<Rightarrow> nat" where
  "onCreate_count s = length (filter is_OnCreate (calls s))"



section \<open>The cluster details step of the wizard: ClusterDeploymentDetailsStep\<close>

record 'e AlertPayload =
  title :: string
  message' :: 'e

text \<open>
  The wizard context's current step, and the calls the step has made to the outside
  (\<open>onSaveDetails\<close>, \<open>setCurrentStepId\<close>, \<open>addAlert\<close>), oldest first.
\<close>

datatype ('v, 'e) wizard_effect =
  OnSaveDetails 'v | SetCurrentStepId string | AddAlert "'e AlertPayload"

record ('v, 'e) WizardState =
  currentStepId :: string
  effects :: "('v, 'e) wizard_effect list"

definition perform :: "('v, 'e) wizard_effect \<Rightarrow> ('v, 'e) WizardState \<Rightarrow> ('v, 'e) WizardState" where
  "perform eff s = s\<lparr>effects := effects s @ [eff]\<rparr>"

definition setCurrentStepId :: "string \<Rightarrow> ('v, 'e) WizardState \<Rightarrow> ('v, 'e) WizardState" where
  "setCurrentStepId stepId s = perform (SetCurrentStepId stepId) (s\<lparr>currentStepId := stepId\<rparr>)"

text \<open>\<open>const next = () => setCurrentStepId('hosts-selection')\<close>\<close>

definition DetailsStep_next :: "('v, 'e) WizardState \<Rightarrow> ('v, 'e) WizardState" where
  "DetailsStep_next s = setCurrentStepId ''hosts-selection'' s"

definition DetailsStep_handleSubmit ::
  "('v \<Rightarrow> 'e promise_outcome) \<Rightarrow> 'v \<Rightarrow> ('v, 'e) WizardState \<Rightarrow> ('v, 'e) WizardState" where
  "DetailsStep_handleSubmit onSaveDetails vals s =
     (let s1 = perform (OnSaveDetails vals) s in
      case onSaveDetails vals of
        Pending \<Rightarrow> s1
      | Resolved \<Rightarrow> DetailsStep_next s1
      | Rejected err \<Rightarrow>
          perform (AddAlert \<lparr>title = ''Failed to save ClusterDeployment'', message' = err\<rparr>) s1)"

text \<open>\<open>submitForm\<close> is the function Formik hands to the render callback: a parameter.\<close>

definition handleOnNext ::
  "bool \<Rightarrow> (('v, 'e) WizardState \<Rightarrow> ('v, 'e) WizardState) \<Rightarrow> ('v, 'e) WizardState
     \<Rightarrow> ('v, 'e) WizardState" where
  "handleOnNext dirty submitForm s = (if dirty then submitForm s else DetailsStep_next s)"

text \<open>
  Formik's \<open>submitForm\<close>, for the wiring \<open>onSubmit={handleSubmit}\<close>: it validates the
  current values and calls \<open>onSubmit\<close> with them when validation finds no error.
\<close>

definition formik_submitForm ::
  "bool \<Rightarrow> ('v \<Rightarrow> 's \<Rightarrow> 's) \<Rightarrow> 'v \<Rightarrow> 's \<Rightarrow> 's" where
  "formik_submitForm validationPasses onSubmit vals s =
     (if validationPasses then onSubmit vals s else s)"

text \<open>The wizard was told to go to \<open>hosts-selection\<close> between state \<open>s\<close> and state \<open>s'\<close>.\<close>

definition advanced :: "('v, 'e) WizardState \<Rightarrow> ('v, 'e) WizardState \<Rightarrow> bool" where
  "advanced s s' =
     (SetCurrentStepId ''hosts-selection'' \<in> set (drop (length (effects s)) (effects s')))"


section \<open>The alerts context\<close>

text \<open>
  \<open>alertsSlice\<close> is imported from the reducers module: its action creators and its reducer
  are parameters, collected in a record.
\<close>

record ('alert, 'payload, 'act) AlertsSlice =
  addAlertAction :: "'payload \<Rightarrow> 'act"
  removeAlertAction :: "string \<Rightarrow> 'act"
  clearAlertsAction :: "'act"
  alertsReducer :: "'alert list \<Rightarrow> 'act \<Rightarrow> 'alert list"

text \<open>
  The \<open>React.useReducer\<close> hook of the provider: its current state, and the actions that
  were dispatched to it, oldest first. Dispatching an action replaces the state by the
  reducer's result.
\<close>

record ('alert, 'act) ReducerHook =
  hookState :: "'alert list"
  dispatched :: "'act list"

definition useReducer_initial :: "'alert list \<Rightarrow> ('alert, 'act) ReducerHook" where
  "useReducer_initial initialState = \<lparr>hookState = initialState, dispatched = []\<rparr>"

definition dispatchAlertsAction ::
  "('alert, 'payload, 'act) AlertsSlice \<Rightarrow> 'act \<Rightarrow> ('alert, 'act) ReducerHook
     \<Rightarrow> ('alert, 'act) ReducerHook" where
  "dispatchAlertsAction slice a h =
     \<lparr>hookState = alertsReducer slice (hookState h) a, dispatched = dispatched h @ [a]\<rparr>"

text \<open>The context value; its operations act on the hook of the provider that made them.\<close>

record ('alert, 'payload, 'h) AlertsContextType =
  alerts :: "'alert list"
  addAlert :: "'payload \<Rightarrow> 'h \<Rightarrow> 'h"
  removeAlert :: "string \<Rightarrow> 'h \<Rightarrow> 'h"
  clearAlerts :: "'h \<Rightarrow> 'h"

record 'a Context =
  defaultValue :: 'a

text \<open>\<open>React.createContext\<close> with the default value: no alerts, operations that do nothing.\<close>

definition AlertsContext :: "('alert, 'payload, 'h) AlertsContextType Context" where
  "AlertsContext =
     \<lparr>defaultValue =
        \<lparr>alerts = [], addAlert = (\<lambda>_ h. h), removeAlert = (\<lambda>_ h. h), clearAlerts = (\<lambda>h. h)\<rparr>\<rparr>"

text \<open>The value \<open>AlertsContextProvider\<close> passes to \<open>AlertsContext.Provider\<close> in a render.\<close>

definition AlertsContextProvider ::
  "('alert, 'payload, 'act) AlertsSlice \<Rightarrow> ('alert, 'act) ReducerHook
     \<Rightarrow> ('alert, 'payload, ('alert, 'act) ReducerHook) AlertsContextType" where
  "AlertsContextProvider slice h =
     \<lparr>alerts = hookState h,
      addAlert = (\<lambda>alert. dispatchAlertsAction slice (addAlertAction slice alert)),
      removeAlert = (\<lambda>alertKey. dispatchAlertsAction slice (removeAlertAction slice alertKey)),
      clearAlerts = dispatchAlertsAction slice (clearAlertsAction slice)\<rparr>"

text \<open>
  What the consumers of the context do, one operation after another; every operation is
  taken from the context value of the render before it.
\<close>

datatype 'payload alerts_operation =
  CallAddAlert 'payload | CallRemoveAlert string | CallClearAlerts

fun call_operation ::
  "('alert, 'payload, 'h) AlertsContextType \<Rightarrow> 'payload alerts_operation \<Rightarrow> 'h \<Rightarrow> 'h" where
  "call_operation ctx (CallAddAlert alert) h = addAlert ctx alert h"
| "call_operation ctx (CallRemoveAlert alertKey) h = removeAlert ctx alertKey h"
| "call_operation ctx CallClearAlerts h = clearAlerts ctx h"

fun run_operations ::
  "('alert, 'payload, 'act) AlertsSlice \<Rightarrow> 'payload alerts_operation list
     \<Rightarrow> ('alert, 'act) ReducerHook \<Rightarrow> ('alert, 'act) ReducerHook" where
  "run_operations slice [] h = h"
| "run_operations slice (operation # rest) h =
     run_operations slice rest (call_operation (AlertsContextProvider slice h) operation h)"

text \<open>The action of \<open>alertsSlice\<close> that corresponds to an operation, in the spec's words.\<close>

fun corresponding_action ::
  "('alert, 'payload, 'act) AlertsSlice \<Rightarrow> 'payload alerts_operation \<Rightarrow> 'act" where
  "corresponding_action slice (CallAddAlert alert) = addAlertAction slice alert"
| "corresponding_action slice (CallRemoveAlert alertKey) = removeAlertAction slice alertKey"
| "corresponding_action slice CallClearAlerts = clearAlertsAction slice"

text \<open>
  \<open>React.useContext\<close>: the value of the nearest provider above the caller, or the default
  value of the context when there is none. A provider of \<open>AlertsContext\<close> holds a value of
  type \<open>AlertsContextType\<close>.
\<close>

definition useContext :: "'a Context \<Rightarrow> 'a option \<Rightarrow> 'a" where
  "useContext ctx nearestProvider =
     (case nearestProvider of None \<Rightarrow> defaultValue ctx | Some v \<Rightarrow> v)"

text \<open>\<open>v === undefined\<close>, for a value \<open>v\<close> of type \<open>T | undefined\<close>.\<close>

definition is_undefined :: "'a option \<Rightarrow> bool" where
  "is_undefined v = (v = None)"

definition useAlerts ::
  "('alert, 'payload, 'h) AlertsContextType option
     \<Rightarrow> js_error + ('alert, 'payload, 'h) AlertsContextType" where
  "useAlerts nearestProvider =
     (let context = useContext AlertsContext nearestProvider in
      if is_undefined (Some context)
      then Inl \<lparr>message = ''useAlerts must be used within AlertsContextProvider''\<rparr>
      else Inr context)"


section \<open>The networking status cell: NetworkingStatus\<close>

text \<open>\<open>ValidationsInfo\<close> is an object from validation groups to validations; \<open>{}\<close> has none.\<close>

type_synonym 'v ValidationsInfo = "string \<rightharpoonup> 'v list"

record Host =
  hostId :: string
  status' :: string

record ('cluster, 'v, 'cb) HostNetworkingStatusComponentProps =
  cluster :: 'cluster
  host :: Host
  validationsInfo :: "'v ValidationsInfo"
  onEditHostname :: "'cb option"

text \<open>The component that the \<open>useCallback\<close> closure renders, with the cluster it captured.\<close>

datatype 'cluster toggle_component = AdditionalNTPSourcesDialogToggle 'cluster

text \<open>The props of the \<open>HostStatus\<close> element.\<close>

record ('cluster, 'v, 'cb) HostStatusProps =
  host' :: Host
  validationsInfo' :: "'v ValidationsInfo"
  onEditHostname' :: "'cb option"
  statusOverride :: "string option"
  sublabel :: "string option"
  AdditionalNTPSourcesDialogToggleComponent :: "'cluster toggle_component option"

text \<open>
  \<open>{...props}\<close> comes first in the element, so the attributes written after it replace
  what it spread.
\<close>

definition NetworkingStatus ::
  "('cluster, 'v, 'cb) HostNetworkingStatusComponentProps \<Rightarrow> ('cluster, 'v, 'cb) HostStatusProps" where
  "NetworkingStatus p =
     (let networkingStatus = ''discovering'';
          emptyValidationsInfo = Map.empty;
          noSublabel = None;
          spread = \<lparr>host' = host p, validationsInfo' = validationsInfo p,
                    onEditHostname' = onEditHostname p, statusOverride = None,
                    sublabel = None, AdditionalNTPSourcesDialogToggleComponent = None\<rparr>
      in spread\<lparr>statusOverride := Some networkingStatus,
                validationsInfo' := emptyValidationsInfo,
                sublabel := noSublabel,
                AdditionalNTPSourcesDialogToggleComponent :=
                  Some (AdditionalNTPSourcesDialogToggle (cluster p))\<rparr>)"


section \<open>Properties of the JavaScript array functions\<close>

lemma array_find_Some_iff:
  "array_find p xs = Some x \<longleftrightarrow>
     (\<exists>ys zs. xs = ys @ x # zs \<and> p x \<and> (\<forall>y\<in>set ys. \<not> p y))"
proof (induction xs)
  case Nil
  then show ?case by simp
next
  case (Cons a xs)
  show ?case
  proof (cases "p a")
    case True
    have "(\<exists>ys zs. a # xs = ys @ x # zs \<and> p x \<and> (\<forall>y\<in>set ys. \<not> p y)) \<longleftrightarrow> a = x"
    proof
      assume "\<exists>ys zs. a # xs = ys @ x # zs \<and> p x \<and> (\<forall>y\<in>set ys. \<not> p y)"
      then obtain ys zs where *: "a # xs = ys @ x # zs" "\<forall>y\<in>set ys. \<not> p y" by blast
      with True show "a = x" by (cases ys) auto
    next
      assume "a = x"
      with True have "a # xs = [] @ x # xs \<and> p x \<and> (\<forall>y\<in>set []. \<not> p y)" by simp
      then show "\<exists>ys zs. a # xs = ys @ x # zs \<and> p x \<and> (\<forall>y\<in>set ys. \<not> p y)" by blast
    qed
    with True show ?thesis by simp
  next
    case False
    have "(\<exists>ys zs. a # xs = ys @ x # zs \<and> p x \<and> (\<forall>y\<in>set ys. \<not> p y)) \<longleftrightarrow>
          (\<exists>ys zs. xs = ys @ x # zs \<and> p x \<and> (\<forall>y\<in>set ys. \<not> p y))"
    proof
      assume "\<exists>ys zs. a # xs = ys @ x # zs \<and> p x \<and> (\<forall>y\<in>set ys. \<not> p y)"
      then obtain ys zs where *: "a # xs = ys @ x # zs" "p x" "\<forall>y\<in>set ys. \<not> p y" by blast
      with False obtain ys' where "ys = a # ys'" by (cases ys) auto
      with * have "xs = ys' @ x # zs \<and> p x \<and> (\<forall>y\<in>set ys'. \<not> p y)" by simp
      then show "\<exists>ys zs. xs = ys @ x # zs \<and> p x \<and> (\<forall>y\<in>set ys. \<not> p y)" by blast
    next
      assume "\<exists>ys zs. xs = ys @ x # zs \<and> p x \<and> (\<forall>y\<in>set ys. \<not> p y)"
      then obtain ys zs where "xs = ys @ x # zs" "p x" "\<forall>y\<in>set ys. \<not> p y" by blast
      with False have "a # xs = (a # ys) @ x # zs \<and> p x \<and> (\<forall>y\<in>set (a # ys). \<not> p y)"
        by simp
      then show "\<exists>ys zs. a # xs = ys @ x # zs \<and> p x \<and> (\<forall>y\<in>set ys. \<not> p y)" by blast
    qed
    with False Cons.IH show ?thesis by simp
  qed
qed

lemma array_find_None_iff: "array_find p xs = None \<longleftrightarrow> (\<forall>x\<in>set xs. \<not> p x)"
  by (induction xs) auto

lemma array_find_first: "\<forall>y\<in>set ys. \<not> p y \<Longrightarrow> p x \<Longrightarrow> array_find p (ys @ x # zs) = Some x"
  by (induction ys) auto

lemma array_filter_eq_filter: "array_filter p xs = filter p xs"
  by (induction xs) auto


section \<open>Condition lookup\<close>

text \<open>
  Claim C4. \<open>getClusterValidatedCondition\<close> and \<open>getAgentValidatedCondition\<close> return a
  condition \<open>c\<close> exactly when \<open>status\<close> and \<open>conditions\<close> are present and \<open>c\<close> is the first
  element of \<open>conditions\<close> whose \<open>type\<close> is \<open>Validated\<close>; they return \<open>undefined\<close> exactly when
  \<open>status\<close> is absent, \<open>conditions\<close> is absent, or no element has that type. Both are
  functions of the resource alone and return no new resource: the input is left as it is.
\<close>

theorem validated_condition_lookup:
  fixes resource :: "'spec AgentClusterInstallK8sResource"
    and agent :: "'spec2 AgentK8sResource"
  shows
  "(getClusterValidatedCondition resource = Some c \<longleftrightarrow>
      (\<exists>st cs ys zs. status resource = Some st \<and> conditions st = Some cs \<and>
         cs = ys @ c # zs \<and> type c = ''Validated'' \<and>
         (\<forall>y\<in>set ys. type y \<noteq> ''Validated''))) \<and>
   (getClusterValidatedCondition resource = None \<longleftrightarrow>
      (status resource = None \<or>
       (\<exists>st. status resource = Some st \<and>
          (conditions st = None \<or>
           (\<exists>cs. conditions st = Some cs \<and> (\<forall>x\<in>set cs. type x \<noteq> ''Validated'')))))) \<and>
   (getAgentValidatedCondition agent = Some c \<longleftrightarrow>
      (\<exists>st cs ys zs. status agent = Some st \<and> conditions st = Some cs \<and>
         cs = ys @ c # zs \<and> type c = ''Validated'' \<and>
         (\<forall>y\<in>set ys. type y \<noteq> ''Validated''))) \<and>
   (getAgentValidatedCondition agent = None \<longleftrightarrow>
      (status agent = None \<or>
       (\<exists>st. status agent = Some st \<and>
          (conditions st = None \<or>
           (\<exists>cs. conditions st = Some cs \<and> (\<forall>x\<in>set cs. type x \<noteq> ''Validated''))))))"
proof -
  have some: "(case st of None \<Rightarrow> None
                | Some s \<Rightarrow> (case conditions s of None \<Rightarrow> None
                    | Some cs \<Rightarrow> array_find (\<lambda>c. type c = ''Validated'') cs)) = Some c \<longleftrightarrow>
      (\<exists>s cs ys zs. st = Some s \<and> conditions s = Some cs \<and>
         cs = ys @ c # zs \<and> type c = ''Validated'' \<and>
         (\<forall>y\<in>set ys. type y \<noteq> ''Validated''))" for st :: "ConditionsStatus option"
    by (auto simp: array_find_Some_iff split: option.splits)
  have none: "(case st of None \<Rightarrow> None
                | Some s \<Rightarrow> (case conditions s of None \<Rightarrow> None
                    | Some cs \<Rightarrow> array_find (\<lambda>c. type c = ''Validated'') cs)) = None \<longleftrightarrow>
      (st = None \<or>
       (\<exists>s. st = Some s \<and>
          (conditions s = None \<or>
           (\<exists>cs. conditions s = Some cs \<and> (\<forall>x\<in>set cs. type x \<noteq> ''Validated'')))))"
    for st :: "ConditionsStatus option"
    by (auto simp: array_find_None_iff split: option.splits)
  show ?thesis
    unfolding getClusterValidatedCondition_def getAgentValidatedCondition_def
    using some [of "status resource"] none [of "status resource"]
      some [of "status agent"] none [of "status agent"]
    by blast
qed

text \<open>
  Witness for claim C4: among three conditions the second is the first of type
  \<open>Validated\<close>; a resource without such a condition, without \<open>status\<close> or without
  \<open>conditions\<close> gives \<open>undefined\<close>.
\<close>
theorem validated_condition_lookup_witness:
  "getClusterValidatedCondition
     \<lparr>metadata = None, spec = (None :: unit option),
      status = Some \<lparr>conditions = Some
        [\<lparr>type = ''Completed'', conditionStatus = ''False'', conditionMessage = ''a''\<rparr>,
         \<lparr>type = ''Validated'', conditionStatus = ''True'', conditionMessage = ''b''\<rparr>,
         \<lparr>type = ''Validated'', conditionStatus = ''False'', conditionMessage = ''c''\<rparr>]\<rparr>\<rparr>
     = Some \<lparr>type = ''Validated'', conditionStatus = ''True'', conditionMessage = ''b''\<rparr> \<and>
   getAgentValidatedCondition
     \<lparr>metadata = None, spec = (None :: unit option),
      status = Some \<lparr>conditions = Some
        [\<lparr>type = ''Completed'', conditionStatus = ''False'', conditionMessage = ''a''\<rparr>]\<rparr>\<rparr>
     = None \<and>
   getAgentValidatedCondition
     \<lparr>metadata = None, spec = (None :: unit option), status = None\<rparr> = None \<and>
   getClusterValidatedCondition
     \<lparr>metadata = None, spec = (None :: unit option),
      status = Some \<lparr>conditions = None\<rparr>\<rparr> = None"
proof -
  let ?a = "\<lparr>type = ''Completed'', conditionStatus = ''False'', conditionMessage = ''a''\<rparr>"
  let ?b = "\<lparr>type = ''Validated'', conditionStatus = ''True'', conditionMessage = ''b''\<rparr>"
  let ?c = "\<lparr>type = ''Validated'', conditionStatus = ''False'', conditionMessage = ''c''\<rparr>"
  let ?st = "\<lparr>conditions = Some [?a, ?b, ?c]\<rparr>"
  let ?r = "\<lparr>metadata = None, spec = (None :: unit option), status = Some ?st\<rparr>"
  let ?st2 = "\<lparr>conditions = Some [?a]\<rparr>"
  let ?r2 = "\<lparr>metadata = None, spec = (None :: unit option), status = Some ?st2\<rparr>"
  let ?r3 = "\<lparr>metadata = None, spec = (None :: unit option),
              status = (None :: ConditionsStatus option)\<rparr>"
  let ?r4 = "\<lparr>metadata = None, spec = (None :: unit option),
              status = Some \<lparr>conditions = None\<rparr>\<rparr>"
  have first: "status ?r = Some ?st \<and> conditions ?st = Some [?a, ?b, ?c] \<and>
      [?a, ?b, ?c] = [?a] @ ?b # [?c] \<and> type ?b = ''Validated'' \<and>
      (\<forall>y\<in>set [?a]. type y \<noteq> ''Validated'')"
    by simp
  have 1: "getClusterValidatedCondition ?r = Some ?b"
    using validated_condition_lookup [of ?r ?b ?r2] first by blast
  have none2: "status ?r2 = Some ?st2 \<and> conditions ?st2 = Some [?a] \<and>
      (\<forall>x\<in>set [?a]. type x \<noteq> ''Validated'')"
    by simp
  have 2: "getAgentValidatedCondition ?r2 = None"
    using validated_condition_lookup [of ?r ?b ?r2] none2 by blast
  have 3: "getAgentValidatedCondition ?r3 = None"
    using validated_condition_lookup [of ?r ?b ?r3] by simp
  have 4: "getClusterValidatedCondition ?r4 = None"
    using validated_condition_lookup [of ?r4 ?b ?r3] by simp
  from 1 2 3 4 show ?thesis by blast
qed


section \<open>Label selector extraction\<close>

text \<open>
  Claim C5. \<open>getLocationsFromMatchExpressions\<close> returns the empty list when the argument
  is omitted and when no expression has the key \<open>AGENT_LOCATION_LABEL_KEY\<close>; otherwise it
  returns the \<open>values\<close> of the first expression with that key, and the empty list when
  that expression has no \<open>values\<close>.
\<close>
theorem locations_from_match_expressions:
  "getLocationsFromMatchExpressions k None = [] \<and>
   ((\<forall>e\<in>set es. key e \<noteq> k) \<longrightarrow> getLocationsFromMatchExpressions k (Some es) = []) \<and>
   ((\<forall>y\<in>set ys. key y \<noteq> k) \<and> key e = k \<longrightarrow>
      getLocationsFromMatchExpressions k (Some (ys @ e # zs)) =
        (case values' e of None \<Rightarrow> [] | Some vs \<Rightarrow> vs)) \<and>
   ((\<forall>y\<in>set ys. key y \<noteq> k) \<and> key e = k \<and> values' e = None \<longrightarrow>
      getLocationsFromMatchExpressions k (Some (ys @ e # zs)) = [])"
proof -
  have omitted: "getLocationsFromMatchExpressions k None = []"
    by (simp add: getLocationsFromMatchExpressions_def)
  have no_key: "getLocationsFromMatchExpressions k (Some es) = []"
    if "\<forall>e\<in>set es. key e \<noteq> k"
  proof -
    from that have "array_find (\<lambda>expr. key expr = k) es = None"
      by (simp add: array_find_None_iff)
    then show ?thesis by (simp add: getLocationsFromMatchExpressions_def)
  qed
  have found: "getLocationsFromMatchExpressions k (Some (ys @ e # zs)) =
        (case values' e of None \<Rightarrow> [] | Some vs \<Rightarrow> vs)"
    if "\<forall>y\<in>set ys. key y \<noteq> k" "key e = k"
  proof -
    from that have "array_find (\<lambda>expr. key expr = k) (ys @ e # zs) = Some e"
      by (intro array_find_first) simp_all
    then show ?thesis by (simp add: getLocationsFromMatchExpressions_def)
  qed
  from omitted no_key found show ?thesis by simp
qed

text \<open>Witness for claim C5.\<close>

theorem locations_from_match_expressions_witness:
  "getLocationsFromMatchExpressions ''location'' None = [] \<and>
   getLocationsFromMatchExpressions ''location''
     (Some [\<lparr>key = ''zone'', operator = ''In'', values' = Some [''z1'']\<rparr>]) = [] \<and>
   getLocationsFromMatchExpressions ''location''
     (Some [\<lparr>key = ''zone'', operator = ''In'', values' = Some [''z1'']\<rparr>,
            \<lparr>key = ''location'', operator = ''In'', values' = Some [''brno'', ''tlv'']\<rparr>,
            \<lparr>key = ''location'', operator = ''In'', values' = Some [''nyc'']\<rparr>])
     = [''brno'', ''tlv''] \<and>
   getLocationsFromMatchExpressions ''location''
     (Some [\<lparr>key = ''location'', operator = ''Exists'', values' = None\<rparr>,
            \<lparr>key = ''location'', operator = ''In'', values' = Some [''nyc'']\<rparr>]) = []"
proof -
  let ?z = "\<lparr>key = ''zone'', operator = ''In'', values' = Some [''z1'']\<rparr>"
  let ?l = "\<lparr>key = ''location'', operator = ''In'', values' = Some [''brno'', ''tlv'']\<rparr>"
  let ?n = "\<lparr>key = ''location'', operator = ''In'', values' = Some [''nyc'']\<rparr>"
  let ?x = "\<lparr>key = ''location'', operator = ''Exists'', values' = None\<rparr>"
  have 1: "getLocationsFromMatchExpressions ''location'' None = []"
    using locations_from_match_expressions [of "''location''" "[]" "[]" ?z "[]"] by blast
  have 2: "getLocationsFromMatchExpressions ''location'' (Some [?z]) = []"
    using locations_from_match_expressions [of "''location''" "[?z]" "[]" ?z "[]"] by simp
  have 3: "getLocationsFromMatchExpressions ''location'' (Some [?z, ?l, ?n]) = [''brno'', ''tlv'']"
    using locations_from_match_expressions [of "''location''" "[]" "[?z]" ?l "[?n]"] by simp
  have 4: "getLocationsFromMatchExpressions ''location'' (Some [?x, ?n]) = []"
    using locations_from_match_expressions [of "''location''" "[]" "[]" ?x "[?n]"] by simp
  from 1 2 3 4 show ?thesis by blast
qed

text \<open>
  Claim C8. For every non-empty list \<open>ls\<close> of locations,
  \<open>getLocationsFromMatchExpressions (getAgentLocationMatchExpression ls) = ls\<close>. For an
  undefined or empty \<open>ls\<close>, \<open>getAgentLocationMatchExpression\<close> returns \<open>undefined\<close>, and
  \<open>getLocationsFromMatchExpressions\<close> on its default empty argument returns the empty list.
\<close>
theorem location_match_expression_roundtrip:
  "(ls \<noteq> [] \<longrightarrow>
      getLocationsFromMatchExpressions k (getAgentLocationMatchExpression k (Some ls)) = ls) \<and>
   getAgentLocationMatchExpression k None = None \<and>
   getAgentLocationMatchExpression k (Some []) = None \<and>
   getLocationsFromMatchExpressions k None = [] \<and>
   getLocationsFromMatchExpressions k (Some []) = []"
  by (simp add: getAgentLocationMatchExpression_def getLocationsFromMatchExpressions_def)

text \<open>Witness for claim C8.\<close>

theorem location_match_expression_roundtrip_witness:
  "getLocationsFromMatchExpressions ''location''
     (getAgentLocationMatchExpression ''location'' (Some [''brno'', ''tlv''])) = [''brno'', ''tlv''] \<and>
   getAgentLocationMatchExpression ''location'' (Some [''brno'', ''tlv'']) =
     Some [\<lparr>key = ''location'', operator = ''In'', values' = Some [''brno'', ''tlv'']\<rparr>] \<and>
   getAgentLocationMatchExpression ''location'' None = None \<and>
   getAgentLocationMatchExpression ''location'' (Some []) = None"
  using location_match_expression_roundtrip [of "[''brno'', ''tlv'']" "''location''"]
  by (simp add: getAgentLocationMatchExpression_def)

section \<open>The Add-BMC form\<close>

lemma getNMState_throws:
  "yaml_load (nmState vals) = Inl e \<Longrightarrow> getNMState yaml_load vals infraEnvRes = Inl e"
  by (simp add: getNMState_def)

lemma nmState_argument_Inl_iff:
  "nmState_argument yaml_load hasDHCP infraEnvRes vals = Inl e \<longleftrightarrow>
     \<not> hasDHCP \<and> yaml_load (nmState vals) = Inl e"
  by (auto simp: nmState_argument_def getNMState_def split: sum.splits)

lemma nmState_argument_Inr:
  "hasDHCP \<or> yaml_load (nmState vals) = Inr parsed \<Longrightarrow>
   \<exists>nm. nmState_argument yaml_load hasDHCP infraEnvRes vals = Inr nm"
  by (cases hasDHCP) (simp_all add: nmState_argument_def getNMState_def)

lemma handleSubmit_throw_before_call:
  "nmState_argument yaml_load hasDHCP infraEnvRes vals = Inl e \<Longrightarrow>
   BMCForm_handleSubmit yaml_load onCreate onClose hasDHCP infraEnvRes vals s =
     s\<lparr>error := Some (message e)\<rparr>"
  by (simp add: BMCForm_handleSubmit_def BMCForm_handleSubmit_run_def catch_handler_def
      error_object_def setError_def)

lemma handleSubmit_calls:
  "nmState_argument yaml_load hasDHCP infraEnvRes vals = Inr nm \<Longrightarrow>
   calls (BMCForm_handleSubmit yaml_load onCreate onClose hasDHCP infraEnvRes vals s) =
     calls s @ OnCreate vals nm # (if onCreate vals nm = Resolved then [OnClose] else [])"
  by (simp add: BMCForm_handleSubmit_def BMCForm_handleSubmit_run_def catch_handler_def
      setError_def invoke_def Let_def
      split: promise_outcome.splits call_outcome.splits sum.splits)

text \<open>
  Claim C2. Whenever \<open>yaml.load\<close> returns for \<open>values.nmState\<close>, \<open>getNMState\<close> returns an
  object with \<open>apiVersion\<close> \<open>agent-install.openshift.io/v1beta1\<close>, \<open>kind\<close> \<open>NMStateConfig\<close>,
  \<open>metadata.generateName\<close> the name of the InfraEnv followed by \<open>-\<close> (an absent name is
  rendered as the text \<open>undefined\<close>), \<open>metadata.namespace\<close> the namespace of the InfraEnv,
  \<open>labels.infraEnv\<close> its name, \<open>labels.bmcMAC\<close> equal to \<open>values.bmcAddress\<close>, \<open>spec.config\<close>
  what \<open>yaml.load\<close> returned, and \<open>spec.interfaces\<close> exactly the entries of
  \<open>values.macMapping\<close> with both \<open>macAddress\<close> and \<open>name\<close> non-empty, in their original order.
  The result is a function of the values, the InfraEnv and the parser alone.
\<close>

theorem getNMState_mapping:
  assumes "yaml_load (nmState vals) = Inr parsed"
  shows "\<exists>nm. getNMState yaml_load vals infraEnvRes = Inr nm \<and>
     apiVersion nm = ''agent-install.openshift.io/v1beta1'' \<and>
     kind nm = ''NMStateConfig'' \<and>
     generateName (metadata' nm) =
       (case Option.bind (metadata infraEnvRes) name of
          Some n \<Rightarrow> n @ ''-''
        | None \<Rightarrow> ''undefined-'') \<and>
     namespace' (metadata' nm) = Option.bind (metadata infraEnvRes) namespace \<and>
     infraEnv (labels (metadata' nm)) = Option.bind (metadata infraEnvRes) name \<and>
     bmcMAC (labels (metadata' nm)) = bmcAddress vals \<and>
     config (spec' nm) = parsed \<and>
     interfaces (spec' nm) =
       filter (\<lambda>m. macAddress m \<noteq> [] \<and> name' m \<noteq> []) (macMapping vals) \<and>
     subseq (interfaces (spec' nm)) (macMapping vals)"
proof -
  have "subseq (filter (\<lambda>m. macAddress m \<noteq> [] \<and> name' m \<noteq> []) (macMapping vals))
          (macMapping vals)"
    by simp
  with assms show ?thesis
    by (simp add: getNMState_def array_filter_eq_filter template_string_def
        split: option.splits)
qed

text \<open>
  Witness for claim C2: of four mappings the two complete ones are kept, in order.
\<close>

theorem getNMState_mapping_witness:
  "\<exists>nm. getNMState (\<lambda>s. Inr s :: js_error + string)
       \<lparr>hostname = ''host1'', bmcAddress = ''192.168.1.10'', username = ''admin'',
        password = ''secret'', bootMACAddress = ''00:11:22:33:44:55'',
        disableCertificateVerification = True, online = False,
        nmState = ''interfaces: []'',
        macMapping =
          [\<lparr>macAddress = ''00:11:22:33:44:55'', name' = ''eth0''\<rparr>,
           \<lparr>macAddress = [], name' = ''eth1''\<rparr>,
           \<lparr>macAddress = ''00:11:22:33:44:66'', name' = []\<rparr>,
           \<lparr>macAddress = ''00:11:22:33:44:77'', name' = ''eth2''\<rparr>]\<rparr>
       \<lparr>metadata = Some \<lparr>name = Some ''env1'', namespace = Some ''ns1''\<rparr>,
        spec = (None :: unit option), status = (None :: unit option)\<rparr> = Inr nm \<and>
     apiVersion nm = ''agent-install.openshift.io/v1beta1'' \<and>
     kind nm = ''NMStateConfig'' \<and>
     generateName (metadata' nm) = ''env1-'' \<and>
     namespace' (metadata' nm) = Some ''ns1'' \<and>
     infraEnv (labels (metadata' nm)) = Some ''env1'' \<and>
     bmcMAC (labels (metadata' nm)) = ''192.168.1.10'' \<and>
     config (spec' nm) = ''interfaces: []'' \<and>
     interfaces (spec' nm) =
       [\<lparr>macAddress = ''00:11:22:33:44:55'', name' = ''eth0''\<rparr>,
        \<lparr>macAddress = ''00:11:22:33:44:77'', name' = ''eth2''\<rparr>]"
  using getNMState_mapping [of "\<lambda>s. Inr s :: js_error + string"
      "\<lparr>hostname = ''host1'', bmcAddress = ''192.168.1.10'', username = ''admin'',
        password = ''secret'', bootMACAddress = ''00:11:22:33:44:55'',
        disableCertificateVerification = True, online = False,
        nmState = ''interfaces: []'',
        macMapping =
          [\<lparr>macAddress = ''00:11:22:33:44:55'', name' = ''eth0''\<rparr>,
           \<lparr>macAddress = [], name' = ''eth1''\<rparr>,
           \<lparr>macAddress = ''00:11:22:33:44:66'', name' = []\<rparr>,
           \<lparr>macAddress = ''00:11:22:33:44:77'', name' = ''eth2''\<rparr>]\<rparr>"
      "''interfaces: []''"
      "\<lparr>metadata = Some \<lparr>name = Some ''env1'', namespace = Some ''ns1''\<rparr>,
        spec = (None :: unit option), status = (None :: unit option)\<rparr>"]
  by simp blast


lemma handleSubmit_rejected_with_nullish:
  "nmState_argument yaml_load hasDHCP infraEnvRes vals = Inr nm \<Longrightarrow>
   onCreate vals nm = Rejected Nullish \<Longrightarrow>
   BMCForm_handleSubmit_run yaml_load onCreate onClose hasDHCP infraEnvRes vals s =
     (Rejected TypeError, s\<lparr>error := None, calls := calls s @ [OnCreate vals nm]\<rparr>)"
  by (simp add: BMCForm_handleSubmit_run_def catch_handler_def setError_def invoke_def)




text \<open>
  Claim C7, as stated: every invocation of \<open>handleSubmit\<close> calls \<open>onCreate\<close> exactly once,
  whether or not \<open>hasDHCP\<close> is set. It fails without \<open>hasDHCP\<close> when \<open>yaml.load\<close> throws on
  \<open>values.nmState\<close> (here the text \<open>{\<close>, which the form's validation accepts as a
  non-empty string): \<open>getNMState\<close> throws inside the \<open>try\<close> before \<open>onCreate\<close> is reached,
  and \<open>onCreate\<close> is called zero times.
\<close>

theorem onCreate_exactly_once_counterexample:
  "onCreate_count
     (BMCForm_handleSubmit
        (\<lambda>s. if s = ''{'' then Inl \<lparr>message = ''unexpected end of the stream''\<rparr>
              else (Inr s :: js_error + string))
        (\<lambda>v nm. Resolved) Returns False
        \<lparr>metadata = Some \<lparr>name = Some ''env1'', namespace = Some ''ns1''\<rparr>,
         spec = (None :: unit option), status = (None :: unit option)\<rparr>
        \<lparr>hostname = ''host1'', bmcAddress = ''192.168.1.10'', username = ''admin'',
         password = ''secret'', bootMACAddress = ''00:11:22:33:44:55'',
         disableCertificateVerification = True, online = False,
         nmState = ''{'',
         macMapping = [\<lparr>macAddress = ''00:11:22:33:44:55'', name' = ''eth0''\<rparr>]\<rparr>
        \<lparr>error = None, calls = []\<rparr>) = 0 \<and>
   onCreate_count (\<lparr>error = None, calls = []\<rparr> :: string BMCFormState) = 0"
  by (simp add: BMCForm_handleSubmit_def BMCForm_handleSubmit_run_def catch_handler_def
      error_object_def nmState_argument_def getNMState_def setError_def onCreate_count_def)

text \<open>
  Claim C7, amended. \<open>handleSubmit\<close> calls \<open>onCreate\<close> at most once: exactly once when
  \<open>hasDHCP\<close> is set or \<open>yaml.load\<close> returns for \<open>values.nmState\<close>, whatever the call then
  yields, and not at all when \<open>hasDHCP\<close> is unset and \<open>yaml.load\<close> throws; then only the
  message of what was thrown is recorded in \<open>error\<close>.
\<close>

theorem onCreate_at_most_once:
  "(hasDHCP \<or> yaml_load (nmState vals) = Inr parsed \<longrightarrow>
      onCreate_count (BMCForm_handleSubmit yaml_load onCreate onClose hasDHCP infraEnvRes vals s) =
        onCreate_count s + 1) \<and>
   (\<not> hasDHCP \<and> yaml_load (nmState vals) = Inl e \<longrightarrow>
      onCreate_count (BMCForm_handleSubmit yaml_load onCreate onClose hasDHCP infraEnvRes vals s) =
        onCreate_count s \<and>
      BMCForm_handleSubmit yaml_load onCreate onClose hasDHCP infraEnvRes vals s =
        s\<lparr>error := Some (message e)\<rparr>) \<and>
   onCreate_count (BMCForm_handleSubmit yaml_load onCreate onClose hasDHCP infraEnvRes vals s)
     \<le> onCreate_count s + 1"
proof -
  let ?r = "BMCForm_handleSubmit yaml_load onCreate onClose hasDHCP infraEnvRes vals s"
  have called: "onCreate_count ?r = onCreate_count s + 1"
    if "nmState_argument yaml_load hasDHCP infraEnvRes vals = Inr nm" for nm
    using handleSubmit_calls [OF that, of onCreate onClose s]
    by (simp add: onCreate_count_def)
  have not_called: "?r = s\<lparr>error := Some (message e')\<rparr>"
    if "nmState_argument yaml_load hasDHCP infraEnvRes vals = Inl e'" for e'
    using that by (rule handleSubmit_throw_before_call)
  have 1: "onCreate_count ?r = onCreate_count s + 1"
    if "hasDHCP \<or> yaml_load (nmState vals) = Inr parsed"
  proof -
    from that have "\<exists>nm. nmState_argument yaml_load hasDHCP infraEnvRes vals = Inr nm"
      by (rule nmState_argument_Inr)
    then show ?thesis using called by blast
  qed
  have 2: "onCreate_count ?r = onCreate_count s \<and> ?r = s\<lparr>error := Some (message e)\<rparr>"
    if "\<not> hasDHCP \<and> yaml_load (nmState vals) = Inl e"
  proof -
    from that have "nmState_argument yaml_load hasDHCP infraEnvRes vals = Inl e"
      by (simp add: nmState_argument_Inl_iff)
    then have "?r = s\<lparr>error := Some (message e)\<rparr>" by (rule not_called)
    then show ?thesis by (simp add: onCreate_count_def)
  qed
  have 3: "onCreate_count ?r \<le> onCreate_count s + 1"
  proof (cases "nmState_argument yaml_load hasDHCP infraEnvRes vals")
    case (Inl e')
    then show ?thesis using not_called [of e'] by (simp add: onCreate_count_def)
  next
    case (Inr nm)
    then show ?thesis using called [of nm] by simp
  qed
  from 1 2 3 show ?thesis by blast
qed

text \<open>
  Witness for claim C7, amended: a submission that parses and one that does not.
\<close>

theorem onCreate_at_most_once_witness:
  "onCreate_count
     (BMCForm_handleSubmit
        (\<lambda>s. if s = ''{'' then Inl \<lparr>message = ''unexpected end of the stream''\<rparr>
              else (Inr s :: js_error + string))
        (\<lambda>v nm. Rejected (Object (Some ''host1 already exists''))) Returns False
        \<lparr>metadata = Some \<lparr>name = Some ''env1'', namespace = Some ''ns1''\<rparr>,
         spec = (None :: unit option), status = (None :: unit option)\<rparr>
        \<lparr>hostname = ''host1'', bmcAddress = ''192.168.1.10'', username = ''admin'',
         password = ''secret'', bootMACAddress = ''00:11:22:33:44:55'',
         disableCertificateVerification = True, online = False,
         nmState = ''interfaces: []'',
         macMapping = [\<lparr>macAddress = ''00:11:22:33:44:55'', name' = ''eth0''\<rparr>]\<rparr>
        \<lparr>error = None, calls = []\<rparr>) = 1 \<and>
   BMCForm_handleSubmit
        (\<lambda>s. if s = ''{'' then Inl \<lparr>message = ''unexpected end of the stream''\<rparr>
              else (Inr s :: js_error + string))
        (\<lambda>v nm. Resolved) Returns False
        \<lparr>metadata = Some \<lparr>name = Some ''env1'', namespace = Some ''ns1''\<rparr>,
         spec = (None :: unit option), status = (None :: unit option)\<rparr>
        \<lparr>hostname = ''host1'', bmcAddress = ''192.168.1.10'', username = ''admin'',
         password = ''secret'', bootMACAddress = ''00:11:22:33:44:55'',
         disableCertificateVerification = True, online = False,
         nmState = ''{'',
         macMapping = [\<lparr>macAddress = ''00:11:22:33:44:55'', name' = ''eth0''\<rparr>]\<rparr>
        \<lparr>error = None, calls = []\<rparr>
     = \<lparr>error = Some ''unexpected end of the stream'', calls = []\<rparr>"
proof -
  let ?e = "\<lparr>message = ''unexpected end of the stream''\<rparr>"
  let ?yl = "\<lambda>s. if s = ''{'' then Inl ?e else (Inr s :: js_error + string)"
  let ?rej = "\<lambda>(v :: AddBmcValues) (nm :: string NMStateConfig option).
                Rejected (Object (Some ''host1 already exists''))"
  let ?res = "\<lambda>(v :: AddBmcValues) (nm :: string NMStateConfig option).
                (Resolved :: thrown promise_outcome)"
  let ?env = "\<lparr>metadata = Some \<lparr>name = Some ''env1'', namespace = Some ''ns1''\<rparr>,
      spec = (None :: unit option), status = (None :: unit option)\<rparr>"
  let ?v = "\<lparr>hostname = ''host1'', bmcAddress = ''192.168.1.10'', username = ''admin'',
      password = ''secret'', bootMACAddress = ''00:11:22:33:44:55'',
      disableCertificateVerification = True, online = False,
      nmState = ''interfaces: []'',
      macMapping = [\<lparr>macAddress = ''00:11:22:33:44:55'', name' = ''eth0''\<rparr>]\<rparr>"
  let ?bad = "\<lparr>hostname = ''host1'', bmcAddress = ''192.168.1.10'', username = ''admin'',
      password = ''secret'', bootMACAddress = ''00:11:22:33:44:55'',
      disableCertificateVerification = True, online = False,
      nmState = ''{'',
      macMapping = [\<lparr>macAddress = ''00:11:22:33:44:55'', name' = ''eth0''\<rparr>]\<rparr>"
  let ?s = "\<lparr>error = None, calls = []\<rparr> :: string BMCFormState"
  have parses: "False \<or> ?yl (nmState ?v) = Inr ''interfaces: []''" by simp
  have throws: "\<not> False \<and> ?yl (nmState ?bad) = Inl ?e" by simp
  have 1: "onCreate_count (BMCForm_handleSubmit ?yl ?rej Returns False ?env ?v ?s) = 1"
    using onCreate_at_most_once [of False ?yl ?v "''interfaces: []''" ?rej Returns ?env ?s ?e]
      parses by (simp add: onCreate_count_def)
  have 2: "BMCForm_handleSubmit ?yl ?res Returns False ?env ?bad ?s =
      \<lparr>error = Some ''unexpected end of the stream'', calls = []\<rparr>"
    using onCreate_at_most_once [of False ?yl ?bad "''x''" ?res Returns ?env ?s ?e]
      throws by simp
  from 1 2 show ?thesis by blast
qed

section \<open>The cluster details step\<close>

lemma DetailsStep_next_state:
  "DetailsStep_next s =
     s\<lparr>currentStepId := ''hosts-selection'',
       effects := effects s @ [SetCurrentStepId ''hosts-selection'']\<rparr>"
  by (simp add: DetailsStep_next_def setCurrentStepId_def perform_def)

lemma DetailsStep_handleSubmit_state:
  "DetailsStep_handleSubmit onSaveDetails vals s =
     (case onSaveDetails vals of
        Pending \<Rightarrow> s\<lparr>effects := effects s @ [OnSaveDetails vals]\<rparr>
      | Resolved \<Rightarrow>
          s\<lparr>currentStepId := ''hosts-selection'',
            effects := effects s @ [OnSaveDetails vals, SetCurrentStepId ''hosts-selection'']\<rparr>
      | Rejected err \<Rightarrow>
          s\<lparr>effects := effects s @
              [OnSaveDetails vals,
               AddAlert \<lparr>title = ''Failed to save ClusterDeployment'', message' = err\<rparr>]\<rparr>)"
  by (simp add: DetailsStep_handleSubmit_def DetailsStep_next_state perform_def
      split: promise_outcome.splits)

lemma advanced_handleSubmit:
  "advanced s (DetailsStep_handleSubmit onSaveDetails vals s) \<longleftrightarrow>
     onSaveDetails vals = Resolved"
  by (cases "onSaveDetails vals")
    (simp_all add: DetailsStep_handleSubmit_state advanced_def)

lemma advanced_next: "advanced s (DetailsStep_next s)"
  by (simp add: DetailsStep_next_state advanced_def)

lemma advanced_same: "\<not> advanced s s"
  by (simp add: advanced_def)

text \<open>
  Claim C3. The step tells the wizard to go to \<open>hosts-selection\<close> if and only if
  \<open>onSaveDetails\<close> resolves, or the Next action is taken with a form that is not dirty.
  For \<open>handleSubmit\<close> that is: exactly when \<open>onSaveDetails\<close> resolves; for \<open>handleOnNext\<close>,
  with Formik's \<open>submitForm\<close> calling \<open>handleSubmit\<close> when validation passes: exactly when
  the form is not dirty, or it is submitted and \<open>onSaveDetails\<close> resolves. When
  \<open>onSaveDetails\<close> rejects, the alert titled \<open>Failed to save ClusterDeployment\<close> is added,
  with the rejection as its message, and the current step stays what it was.
\<close>

theorem details_step_advances_iff:
  "(advanced s (DetailsStep_handleSubmit onSaveDetails vals s) \<longleftrightarrow>
      onSaveDetails vals = Resolved) \<and>
   (advanced s
      (handleOnNext dirty
         (formik_submitForm validationPasses (DetailsStep_handleSubmit onSaveDetails) vals) s)
      \<longleftrightarrow> (\<not> dirty \<or> (validationPasses \<and> onSaveDetails vals = Resolved))) \<and>
   (onSaveDetails vals = Resolved \<longrightarrow>
      DetailsStep_handleSubmit onSaveDetails vals s =
        s\<lparr>currentStepId := ''hosts-selection'',
          effects := effects s @ [OnSaveDetails vals, SetCurrentStepId ''hosts-selection'']\<rparr>) \<and>
   (onSaveDetails vals = Rejected err \<longrightarrow>
      DetailsStep_handleSubmit onSaveDetails vals s =
        s\<lparr>effects := effects s @
            [OnSaveDetails vals,
             AddAlert \<lparr>title = ''Failed to save ClusterDeployment'', message' = err\<rparr>]\<rparr> \<and>
      currentStepId (DetailsStep_handleSubmit onSaveDetails vals s) = currentStepId s) \<and>
   (\<not> dirty \<longrightarrow>
      handleOnNext dirty submitForm s =
        s\<lparr>currentStepId := ''hosts-selection'',
          effects := effects s @ [SetCurrentStepId ''hosts-selection'']\<rparr>) \<and>
   (dirty \<longrightarrow> handleOnNext dirty submitForm s = submitForm s)"
proof -
  have next_iff: "advanced s
      (handleOnNext dirty
         (formik_submitForm validationPasses (DetailsStep_handleSubmit onSaveDetails) vals) s)
      \<longleftrightarrow> (\<not> dirty \<or> (validationPasses \<and> onSaveDetails vals = Resolved))"
  proof (cases dirty)
    case False
    then show ?thesis by (simp add: handleOnNext_def advanced_next)
  next
    case True
    then show ?thesis
      by (cases validationPasses)
        (simp_all add: handleOnNext_def formik_submitForm_def advanced_handleSubmit
          advanced_same)
  qed
  have resolved: "DetailsStep_handleSubmit onSaveDetails vals s =
        s\<lparr>currentStepId := ''hosts-selection'',
          effects := effects s @ [OnSaveDetails vals, SetCurrentStepId ''hosts-selection'']\<rparr>"
    if "onSaveDetails vals = Resolved"
    using that by (simp add: DetailsStep_handleSubmit_state)
  have rejected: "DetailsStep_handleSubmit onSaveDetails vals s =
        s\<lparr>effects := effects s @
            [OnSaveDetails vals,
             AddAlert \<lparr>title = ''Failed to save ClusterDeployment'', message' = err\<rparr>]\<rparr> \<and>
      currentStepId (DetailsStep_handleSubmit onSaveDetails vals s) = currentStepId s"
    if "onSaveDetails vals = Rejected err"
    using that by (simp add: DetailsStep_handleSubmit_state)
  have clean: "handleOnNext dirty submitForm s =
        s\<lparr>currentStepId := ''hosts-selection'',
          effects := effects s @ [SetCurrentStepId ''hosts-selection'']\<rparr>" if "\<not> dirty"
    using that by (simp add: handleOnNext_def DetailsStep_next_state)
  have dirty: "handleOnNext dirty submitForm s = submitForm s" if dirty
    using that by (simp add: handleOnNext_def)
  from advanced_handleSubmit [of s onSaveDetails vals] next_iff resolved rejected clean dirty
  show ?thesis by blast
qed

text \<open>
  Witness for claim C3: a rejected save, a resolved save, Next on a clean form and Next
  on a dirty form whose save is rejected.
\<close>

theorem details_step_advances_iff_witness:
  "DetailsStep_handleSubmit (\<lambda>v. Rejected ''409 Conflict'') ''cluster1''
     \<lparr>currentStepId = ''cluster-details'', effects = []\<rparr>
   = \<lparr>currentStepId = ''cluster-details'',
      effects = [OnSaveDetails ''cluster1'',
        AddAlert \<lparr>title = ''Failed to save ClusterDeployment'', message' = ''409 Conflict''\<rparr>]\<rparr> \<and>
   DetailsStep_handleSubmit (\<lambda>v. Resolved :: string promise_outcome) ''cluster1''
     \<lparr>currentStepId = ''cluster-details'', effects = []\<rparr>
   = \<lparr>currentStepId = ''hosts-selection'',
      effects = [OnSaveDetails ''cluster1'', SetCurrentStepId ''hosts-selection'']\<rparr> \<and>
   handleOnNext False
     (formik_submitForm True (DetailsStep_handleSubmit (\<lambda>v. Rejected ''409 Conflict'')) ''cluster1'')
     \<lparr>currentStepId = ''cluster-details'', effects = []\<rparr>
   = \<lparr>currentStepId = ''hosts-selection'',
      effects = [SetCurrentStepId ''hosts-selection'']\<rparr> \<and>
   \<not> advanced \<lparr>currentStepId = ''cluster-details'', effects = []\<rparr>
     (handleOnNext True
        (formik_submitForm True (DetailsStep_handleSubmit (\<lambda>v. Rejected ''409 Conflict''))
           ''cluster1'')
        \<lparr>currentStepId = ''cluster-details'', effects = []\<rparr>)"
proof -
  let ?s = "\<lparr>currentStepId = ''cluster-details'', effects = []\<rparr>
              :: (string, string) WizardState"
  let ?rej = "\<lambda>v :: string. Rejected ''409 Conflict''"
  let ?res = "\<lambda>v :: string. Resolved :: string promise_outcome"
  let ?sub = "formik_submitForm True (DetailsStep_handleSubmit ?rej) ''cluster1''"
  note rej = details_step_advances_iff
    [of ?s ?rej "''cluster1''" True True "''409 Conflict''" ?sub]
  note res = details_step_advances_iff
    [of ?s ?res "''cluster1''" False True "''409 Conflict''" ?sub]
  have 1: "DetailsStep_handleSubmit ?rej ''cluster1'' ?s =
      \<lparr>currentStepId = ''cluster-details'',
       effects = [OnSaveDetails ''cluster1'',
         AddAlert \<lparr>title = ''Failed to save ClusterDeployment'', message' = ''409 Conflict''\<rparr>]\<rparr>"
    using rej by simp
  have 2: "DetailsStep_handleSubmit ?res ''cluster1'' ?s =
      \<lparr>currentStepId = ''hosts-selection'',
       effects = [OnSaveDetails ''cluster1'', SetCurrentStepId ''hosts-selection'']\<rparr>"
    using res by simp
  have 3: "handleOnNext False ?sub ?s =
      \<lparr>currentStepId = ''hosts-selection'', effects = [SetCurrentStepId ''hosts-selection'']\<rparr>"
    using res by simp
  have 4: "\<not> advanced ?s (handleOnNext True ?sub ?s)"
    using rej [THEN conjunct2, THEN conjunct1] by simp
  from 1 2 3 4 show ?thesis by blast
qed


section \<open>The alerts context\<close>

lemma call_operation_dispatches:
  "call_operation (AlertsContextProvider slice h') operation h =
     dispatchAlertsAction slice (corresponding_action slice operation) h"
  by (cases operation) (simp_all add: AlertsContextProvider_def)

lemma run_operations_fold:
  "run_operations slice operations h =
     \<lparr>hookState =
        foldl (alertsReducer slice) (hookState h) (map (corresponding_action slice) operations),
      dispatched = dispatched h @ map (corresponding_action slice) operations\<rparr>"
proof (induction operations arbitrary: h)
  case Nil
  then show ?case by simp
next
  case (Cons operation rest)
  show ?case
    by (simp add: Cons.IH call_operation_dispatches dispatchAlertsAction_def)
qed

text \<open>
  Claim C6. Each of \<open>addAlert\<close>, \<open>removeAlert\<close> and \<open>clearAlerts\<close> of the provider's context
  value dispatches exactly the corresponding action of \<open>alertsSlice\<close>, one action and
  nothing else; so after any sequence of these operations, started from the empty list,
  the dispatched actions are the corresponding actions in order, and \<open>alerts\<close> in the
  context is the left fold of the dispatched actions by the reducer over the empty list.
\<close>

theorem alerts_context_is_reducer_fold:
  "call_operation (AlertsContextProvider slice h) operation h =
     dispatchAlertsAction slice (corresponding_action slice operation) h \<and>
   dispatched (dispatchAlertsAction slice a h) = dispatched h @ [a] \<and>
   dispatched (run_operations slice operations (useReducer_initial [])) =
     map (corresponding_action slice) operations \<and>
   alerts (AlertsContextProvider slice (run_operations slice operations (useReducer_initial []))) =
     foldl (alertsReducer slice) []
       (dispatched (run_operations slice operations (useReducer_initial []))) \<and>
   alerts (AlertsContextProvider slice (run_operations slice operations (useReducer_initial []))) =
     foldl (alertsReducer slice) [] (map (corresponding_action slice) operations)"
proof -
  let ?h = "run_operations slice operations (useReducer_initial [])"
  have 1: "call_operation (AlertsContextProvider slice h) operation h =
      dispatchAlertsAction slice (corresponding_action slice operation) h"
    by (rule call_operation_dispatches)
  have 2: "dispatched (dispatchAlertsAction slice a h) = dispatched h @ [a]"
    by (simp add: dispatchAlertsAction_def)
  have 3: "dispatched ?h = map (corresponding_action slice) operations"
    by (simp add: run_operations_fold useReducer_initial_def)
  have 5: "alerts (AlertsContextProvider slice ?h) =
      foldl (alertsReducer slice) [] (map (corresponding_action slice) operations)"
    by (simp add: run_operations_fold useReducer_initial_def AlertsContextProvider_def)
  have 4: "alerts (AlertsContextProvider slice ?h) =
      foldl (alertsReducer slice) [] (dispatched ?h)"
    by (simp only: 3 5)
  from 1 2 3 4 5 show ?thesis by blast
qed

text \<open>
  Witness for claim C6, with a reducer that appends, removes by key and clears.
\<close>

theorem alerts_context_is_reducer_fold_witness:
  "alerts (AlertsContextProvider
     \<lparr>addAlertAction = (\<lambda>p. Inl p), removeAlertAction = (\<lambda>k. Inr (Some k)),
      clearAlertsAction = Inr None,
      alertsReducer = (\<lambda>st a. case a of
          Inl p \<Rightarrow> st @ [p]
        | Inr None \<Rightarrow> []
        | Inr (Some k) \<Rightarrow> filter (\<lambda>x. x \<noteq> k) st)\<rparr>
     (run_operations
        \<lparr>addAlertAction = (\<lambda>p. Inl p), removeAlertAction = (\<lambda>k. Inr (Some k)),
         clearAlertsAction = Inr None,
         alertsReducer = (\<lambda>st a. case a of
             Inl p \<Rightarrow> st @ [p]
           | Inr None \<Rightarrow> []
           | Inr (Some k) \<Rightarrow> filter (\<lambda>x. x \<noteq> k) st)\<rparr>
        [CallAddAlert ''a'', CallClearAlerts, CallAddAlert ''b'', CallAddAlert ''c'',
         CallRemoveAlert ''b'']
        (useReducer_initial []))) = [''c'']"
  using alerts_context_is_reducer_fold
    [of "\<lparr>addAlertAction = (\<lambda>p. Inl p), removeAlertAction = (\<lambda>k. Inr (Some k)),
         clearAlertsAction = Inr None,
         alertsReducer = (\<lambda>st a. case a of
             Inl p \<Rightarrow> st @ [p]
           | Inr None \<Rightarrow> []
           | Inr (Some k) \<Rightarrow> filter (\<lambda>x. x \<noteq> k) st)\<rparr>"
        "useReducer_initial []" "CallClearAlerts" "Inr None"
        "[CallAddAlert ''a'', CallClearAlerts, CallAddAlert ''b'', CallAddAlert ''c'',
          CallRemoveAlert ''b'']"]
  by simp

text \<open>
  Claim C9. \<open>useAlerts\<close> never throws: the context is created with a default value, so
  \<open>React.useContext\<close> returns the value of a provider or that default, never
  \<open>undefined\<close>, and the error branch is not taken. Outside any provider \<open>useAlerts\<close>
  returns the default context: no alerts, and operations that change nothing.
\<close>

theorem useAlerts_never_throws:
  fixes nearestProvider :: "('alert, 'payload, 'h) AlertsContextType option"
    and context0 :: "('alert, 'payload, 'h) AlertsContextType"
  assumes "context0 = defaultValue AlertsContext"
  shows "useAlerts nearestProvider = Inr (useContext AlertsContext nearestProvider) \<and>
   useAlerts nearestProvider \<noteq> Inl e \<and>
   useAlerts None = Inr context0 \<and>
   alerts context0 = [] \<and>
   addAlert context0 alert h = h \<and>
   removeAlert context0 alertKey h = h \<and>
   clearAlerts context0 h = h"
  using assms by (simp add: useAlerts_def useContext_def is_undefined_def AlertsContext_def)

text \<open>
  Witness for claim C9: outside a provider, and under a provider with one alert.
\<close>

theorem useAlerts_never_throws_witness:
  "useAlerts (None :: (string, string, nat) AlertsContextType option) =
     Inr \<lparr>alerts = [], addAlert = (\<lambda>_ h. h), removeAlert = (\<lambda>_ h. h), clearAlerts = (\<lambda>h. h)\<rparr> \<and>
   useAlerts
     (Some \<lparr>alerts = [''a''], addAlert = (\<lambda>_ h. h), removeAlert = (\<lambda>_ h. h),
            clearAlerts = (\<lambda>h :: nat. h)\<rparr>) =
     Inr \<lparr>alerts = [''a''], addAlert = (\<lambda>_ :: string. \<lambda>h. h), removeAlert = (\<lambda>_ h. h),
          clearAlerts = (\<lambda>h. h)\<rparr>"
proof -
  let ?v = "\<lparr>alerts = [''a''], addAlert = (\<lambda>_ :: string. \<lambda>h :: nat. h),
             removeAlert = (\<lambda>_ h. h), clearAlerts = (\<lambda>h. h)\<rparr>"
  let ?d = "\<lparr>alerts = ([] :: string list), addAlert = (\<lambda>_ :: string. \<lambda>h :: nat. h),
             removeAlert = (\<lambda>_ h. h), clearAlerts = (\<lambda>h. h)\<rparr>"
  have d: "?d = defaultValue AlertsContext"
    by (simp add: AlertsContext_def)
  have 1: "useAlerts None = Inr ?d"
    using useAlerts_never_throws [OF d, of None] by blast
  have 2: "useAlerts (Some ?v) = Inr ?v"
    using useAlerts_never_throws [OF d, of "Some ?v"] by (simp add: useContext_def)
  from 1 2 show ?thesis by blast
qed


section \<open>The networking status cell\<close>

text \<open>
  Claim C10. For every cluster, host and \<open>validationsInfo\<close> prop, \<open>NetworkingStatus\<close>
  renders \<open>HostStatus\<close> with \<open>statusOverride\<close> \<open>discovering\<close>, an empty \<open>validationsInfo\<close>
  object and an undefined \<open>sublabel\<close>; these three do not depend on the host (its status
  included), on the \<open>validationsInfo\<close> passed in, or on the cluster.
\<close>

theorem NetworkingStatus_constant:
  "statusOverride (NetworkingStatus p) = Some ''discovering'' \<and>
   validationsInfo' (NetworkingStatus p) = Map.empty \<and>
   sublabel (NetworkingStatus p) = None \<and>
   NetworkingStatus p =
     \<lparr>host' = host p, validationsInfo' = Map.empty, onEditHostname' = onEditHostname p,
      statusOverride = Some ''discovering'', sublabel = None,
      AdditionalNTPSourcesDialogToggleComponent =
        Some (AdditionalNTPSourcesDialogToggle (cluster p))\<rparr> \<and>
   statusOverride (NetworkingStatus (p\<lparr>host := h, validationsInfo := v, cluster := c\<rparr>)) =
     statusOverride (NetworkingStatus p) \<and>
   validationsInfo' (NetworkingStatus (p\<lparr>host := h, validationsInfo := v, cluster := c\<rparr>)) =
     validationsInfo' (NetworkingStatus p) \<and>
   sublabel (NetworkingStatus (p\<lparr>host := h, validationsInfo := v, cluster := c\<rparr>)) =
     sublabel (NetworkingStatus p)"
  by (simp add: NetworkingStatus_def)

text \<open>
  Witness for claim C10: a host that is \<open>insufficient\<close>, with a failed validation.
\<close>

theorem NetworkingStatus_constant_witness:
  "NetworkingStatus
     \<lparr>cluster = ''cluster1'',
      host = \<lparr>hostId = ''h1'', status' = ''insufficient''\<rparr>,
      validationsInfo = [''network'' \<mapsto> [''no-gateway'']],
      onEditHostname = (None :: unit option)\<rparr>
   = \<lparr>host' = \<lparr>hostId = ''h1'', status' = ''insufficient''\<rparr>,
      validationsInfo' = Map.empty, onEditHostname' = None,
      statusOverride = Some ''discovering'', sublabel = None,
      AdditionalNTPSourcesDialogToggleComponent =
        Some (AdditionalNTPSourcesDialogToggle ''cluster1'')\<rparr>"
  using NetworkingStatus_constant
    [of "\<lparr>cluster = ''cluster1'',
      host = \<lparr>hostId = ''h1'', status' = ''insufficient''\<rparr>,
      validationsInfo = [''network'' \<mapsto> [''no-gateway'']],
      onEditHostname = (None :: unit option)\<rparr>"]
  by simp

end
